theory Spec2Isabelle
  imports Complex_Main
begin

section \<open>JavaScript values\<close>

text \<open>
  A JavaScript number is a finite value, \<open>NaN\<close> or one of the two infinities. The finite
  values are taken as reals: rounding and the sign of zero are left out of the model.
\<close>

datatype jsnum = Fin real | NaN | PosInf | NegInf

text \<open>A value of type \<open>any\<close>: a primitive, or a reference to an object on the heap.\<close>

datatype jsval = Undefined | JNull | JBool bool | JNum jsnum | JStr string | Ref nat

text \<open>What \<open>if (v)\<close> tests.\<close>

fun truthy :: "jsval \<Rightarrow> bool" where
  "truthy Undefined = False"
| "truthy JNull = False"
| "truthy (JBool b) = b"
| "truthy (JNum (Fin r)) = (r \<noteq> 0)"
| "truthy (JNum NaN) = False"
| "truthy (JNum PosInf) = True"
| "truthy (JNum NegInf) = True"
| "truthy (JStr s) = (s \<noteq> [])"
| "truthy (Ref a) = True"

definition num_of_int :: "int \<Rightarrow> jsnum" where
  "num_of_int i = Fin (of_int i)"

section \<open>Structure query properties (mol-model/structure/query/properties.ts)\<close>

text \<open>
  A column is read with \<open>value(row)\<close>; the row and the cell are JavaScript values. An
  index array read out of range gives \<open>Undefined\<close>.
\<close>

type_synonym column = "jsval \<Rightarrow> jsval"

record atomic_conformation =
  atomId :: column
  occupancy :: column
  B_iso_or_equiv :: column

record atoms_table =
  type_symbol :: column
  label_atom_id :: column
  auth_atom_id :: column
  label_alt_id :: column
  pdbx_formal_charge :: column

record residues_table =
  group_PDB :: column
  label_comp_id :: column
  auth_comp_id :: column
  label_seq_id :: column
  auth_seq_id :: column
  pdbx_PDB_ins_code :: column

record chains_table =
  label_asym_id :: column
  auth_asym_id :: column
  label_entity_id :: column

record atomic_hierarchy =
  atoms :: atoms_table
  residues :: residues_table
  chains :: chains_table
  residueKey :: column
  chainKey :: column
  entityKey :: column

record atomic_unit =
  conformation :: atomic_conformation
  hierarchy :: atomic_hierarchy
  residueIndex :: "int \<Rightarrow> jsval"
  chainIndex :: "int \<Rightarrow> jsval"

text \<open>
  Every unit, whatever its kind, has the coordinate methods \<open>x(i)\<close>, \<open>y(i)\<close>, \<open>z(i)\<close>
  (typed \<open>number \<Rightarrow> number\<close>); only an atomic unit has a conformation and a hierarchy.
\<close>

record unit_coords =
  unit_x :: "int \<Rightarrow> jsnum"
  unit_y :: "int \<Rightarrow> jsnum"
  unit_z :: "int \<Rightarrow> jsnum"

datatype Unit =
    Atomic unit_coords atomic_unit
  | Spheres unit_coords
  | Gaussians unit_coords

fun coords :: "Unit \<Rightarrow> unit_coords" where
  "coords (Atomic c u) = c"
| "coords (Spheres c) = c"
| "coords (Gaussians c) = c"

fun isAtomic :: "Unit \<Rightarrow> bool" where
  "isAtomic (Atomic c u) = True"
| "isAtomic (Spheres c) = False"
| "isAtomic (Gaussians c) = False"

record Location =
  unit :: Unit
  element :: int

text \<open>A property either returns a value or throws a string.\<close>

type_synonym property = "Location \<Rightarrow> string + jsval"

definition notAtomic :: "string + jsval" where
  "notAtomic = Inl ''Property only available for atomic models.''"

text \<open>
  The shape shared by the guarded properties:
  \<open>l => !Unit.isAtomic(l.unit) ? notAtomic() : f(l.unit, l.element)\<close>.
\<close>

fun atomic_only :: "(atomic_unit \<Rightarrow> int \<Rightarrow> jsval) \<Rightarrow> property" where
  "atomic_only f l =
     (case unit l of
        Atomic c u \<Rightarrow> Inr (f u (element l))
      | Spheres c \<Rightarrow> notAtomic
      | Gaussians c \<Rightarrow> notAtomic)"

definition constant_true :: property where
  "constant_true l = Inr (JBool True)"

definition constant_false :: property where
  "constant_false l = Inr (JBool False)"

definition constant_zero :: property where
  "constant_zero l = Inr (JNum (Fin 0))"

definition atom_key :: property where
  "atom_key l = Inr (JNum (num_of_int (element l)))"

definition atom_x :: property where
  "atom_x l = Inr (JNum (unit_x (coords (unit l)) (element l)))"

definition atom_y :: property where
  "atom_y l = Inr (JNum (unit_y (coords (unit l)) (element l)))"

definition atom_z :: property where
  "atom_z l = Inr (JNum (unit_z (coords (unit l)) (element l)))"

definition atom_id :: property where
  "atom_id = atomic_only (\<lambda>u e. atomId (conformation u) (JNum (num_of_int e)))"

definition atom_occupancy :: property where
  "atom_occupancy = atomic_only (\<lambda>u e. occupancy (conformation u) (JNum (num_of_int e)))"

definition atom_B_iso_or_equiv :: property where
  "atom_B_iso_or_equiv =
     atomic_only (\<lambda>u e. B_iso_or_equiv (conformation u) (JNum (num_of_int e)))"

definition atom_type_symbol :: property where
  "atom_type_symbol =
     atomic_only (\<lambda>u e. type_symbol (atoms (hierarchy u)) (JNum (num_of_int e)))"

definition atom_label_atom_id :: property where
  "atom_label_atom_id =
     atomic_only (\<lambda>u e. label_atom_id (atoms (hierarchy u)) (JNum (num_of_int e)))"

definition atom_auth_atom_id :: property where
  "atom_auth_atom_id =
     atomic_only (\<lambda>u e. auth_atom_id (atoms (hierarchy u)) (JNum (num_of_int e)))"

definition atom_label_alt_id :: property where
  "atom_label_alt_id =
     atomic_only (\<lambda>u e. label_alt_id (atoms (hierarchy u)) (JNum (num_of_int e)))"

definition atom_pdbx_formal_charge :: property where
  "atom_pdbx_formal_charge =
     atomic_only (\<lambda>u e. pdbx_formal_charge (atoms (hierarchy u)) (JNum (num_of_int e)))"

definition residue_key :: property where
  "residue_key = atomic_only (\<lambda>u e. residueKey (hierarchy u) (residueIndex u e))"

definition residue_group_PDB :: property where
  "residue_group_PDB =
     atomic_only (\<lambda>u e. group_PDB (residues (hierarchy u)) (residueIndex u e))"

definition residue_label_comp_id :: property where
  "residue_label_comp_id =
     atomic_only (\<lambda>u e. label_comp_id (residues (hierarchy u)) (residueIndex u e))"

definition residue_auth_comp_id :: property where
  "residue_auth_comp_id =
     atomic_only (\<lambda>u e. auth_comp_id (residues (hierarchy u)) (residueIndex u e))"

definition residue_label_seq_id :: property where
  "residue_label_seq_id =
     atomic_only (\<lambda>u e. label_seq_id (residues (hierarchy u)) (residueIndex u e))"

definition residue_auth_seq_id :: property where
  "residue_auth_seq_id =
     atomic_only (\<lambda>u e. auth_seq_id (residues (hierarchy u)) (residueIndex u e))"

definition residue_pdbx_PDB_ins_code :: property where
  "residue_pdbx_PDB_ins_code =
     atomic_only (\<lambda>u e. pdbx_PDB_ins_code (residues (hierarchy u)) (residueIndex u e))"

definition chain_key :: property where
  "chain_key = atomic_only (\<lambda>u e. chainKey (hierarchy u) (chainIndex u e))"

definition chain_label_asym_id :: property where
  "chain_label_asym_id =
     atomic_only (\<lambda>u e. label_asym_id (chains (hierarchy u)) (chainIndex u e))"

definition chain_auth_asym_id :: property where
  "chain_auth_asym_id =
     atomic_only (\<lambda>u e. auth_asym_id (chains (hierarchy u)) (chainIndex u e))"

definition chain_label_entity_id :: property where
  "chain_label_entity_id =
     atomic_only (\<lambda>u e. label_entity_id (chains (hierarchy u)) (chainIndex u e))"

section \<open>Model.getCenter (the \<open>Model\<close> namespace)\<close>

type_synonym Vec3 = "jsnum \<times> jsnum \<times> jsnum"

text \<open>
  The fields of a model that \<open>getCenter\<close> reads. \<open>dynamicPropertyData\<close> is the source's
  \<open>_dynamicPropertyData\<close>, an object of type \<open>{ [name: string]: any }\<close>; a key that is
  not there reads as \<open>Undefined\<close>.
\<close>

record ('ac, 'cc) Model =
  atomicConformation :: 'ac
  coarseConformation :: 'cc
  dynamicPropertyData :: "string \<rightharpoonup> jsval"

definition read_prop :: "(string \<rightharpoonup> jsval) \<Rightarrow> string \<Rightarrow> jsval" where
  "read_prop d k = (case d k of None \<Rightarrow> Undefined | Some v \<Rightarrow> v)"

text \<open>
  The heap of \<open>Vec3\<close> objects: the address of a vector is its position in \<open>vecs\<close>, and two
  references are the same object when their addresses are equal. \<open>calc_calls\<close> counts the
  calls of \<open>calcModelCenter\<close> made so far.
\<close>

record heap =
  vecs :: "Vec3 list"
  calc_calls :: nat

text \<open>
  \<open>calcModelCenter\<close> is imported from \<open>./util\<close>, typed
  \<open>(AtomicConformation, CoarseConformation) \<Rightarrow> Vec3\<close>: it returns a newly allocated
  vector. The coordinates it computes are the parameter \<open>centre\<close>.
\<close>

definition calcModelCenter ::
  "('ac \<Rightarrow> 'cc \<Rightarrow> Vec3) \<Rightarrow> 'ac \<Rightarrow> 'cc \<Rightarrow> heap \<Rightarrow> nat \<times> heap" where
  "calcModelCenter centre ac cc h =
     (length (vecs h),
      h\<lparr>vecs := vecs h @ [centre ac cc], calc_calls := Suc (calc_calls h)\<rparr>)"

definition CenterProp :: string where
  "CenterProp = ''__Center__''"

definition getCenter ::
  "('ac \<Rightarrow> 'cc \<Rightarrow> Vec3) \<Rightarrow> ('ac, 'cc) Model \<Rightarrow> heap \<Rightarrow> jsval \<times> ('ac, 'cc) Model \<times> heap" where
  "getCenter centre model h =
     (if truthy (read_prop (dynamicPropertyData model) CenterProp)
      then (read_prop (dynamicPropertyData model) CenterProp, model, h)
      else
        (let (center, h') =
               calcModelCenter centre (atomicConformation model) (coarseConformation model) h
         in (Ref center,
             model\<lparr>dynamicPropertyData := (dynamicPropertyData model)(CenterProp \<mapsto> Ref center)\<rparr>,
             h')))"

text \<open>One more call of \<open>getCenter\<close> on the model and heap a call left behind.\<close>

definition getCenter_again ::
  "('ac \<Rightarrow> 'cc \<Rightarrow> Vec3) \<Rightarrow> jsval \<times> ('ac, 'cc) Model \<times> heap \<Rightarrow> jsval \<times> ('ac, 'cc) Model \<times> heap" where
  "getCenter_again centre r = getCenter centre (fst (snd r)) (snd (snd r))"

section \<open>CCP4 volumes (mol-model/volume/formats/ccp4.ts)\<close>

subsection \<open>Number arithmetic\<close>

text \<open>
  Multiplication, addition and division of JavaScript numbers, with the special values.
  A zero divisor is taken as \<open>+0\<close>.
\<close>

fun js_mul :: "jsnum \<Rightarrow> jsnum \<Rightarrow> jsnum" where
  "js_mul (Fin a) (Fin b) = Fin (a * b)"
| "js_mul NaN b = NaN"
| "js_mul a NaN = NaN"
| "js_mul (Fin a) PosInf = (if a = 0 then NaN else if 0 < a then PosInf else NegInf)"
| "js_mul (Fin a) NegInf = (if a = 0 then NaN else if 0 < a then NegInf else PosInf)"
| "js_mul PosInf (Fin b) = (if b = 0 then NaN else if 0 < b then PosInf else NegInf)"
| "js_mul NegInf (Fin b) = (if b = 0 then NaN else if 0 < b then NegInf else PosInf)"
| "js_mul PosInf PosInf = PosInf"
| "js_mul PosInf NegInf = NegInf"
| "js_mul NegInf PosInf = NegInf"
| "js_mul NegInf NegInf = PosInf"

fun js_add :: "jsnum \<Rightarrow> jsnum \<Rightarrow> jsnum" where
  "js_add (Fin a) (Fin b) = Fin (a + b)"
| "js_add NaN b = NaN"
| "js_add a NaN = NaN"
| "js_add PosInf NegInf = NaN"
| "js_add NegInf PosInf = NaN"
| "js_add PosInf b = PosInf"
| "js_add NegInf b = NegInf"
| "js_add a PosInf = PosInf"
| "js_add a NegInf = NegInf"

fun js_div :: "jsnum \<Rightarrow> jsnum \<Rightarrow> jsnum" where
  "js_div (Fin a) (Fin b) =
     (if b = 0 then (if a = 0 then NaN else if 0 < a then PosInf else NegInf)
      else Fin (a / b))"
| "js_div NaN b = NaN"
| "js_div a NaN = NaN"
| "js_div (Fin a) PosInf = Fin 0"
| "js_div (Fin a) NegInf = Fin 0"
| "js_div PosInf (Fin b) = (if 0 \<le> b then PosInf else NegInf)"
| "js_div NegInf (Fin b) = (if 0 \<le> b then NegInf else PosInf)"
| "js_div PosInf b = NaN"
| "js_div NegInf b = NaN"

text \<open>\<open>x === 0.0\<close>\<close>

definition is_zero :: "jsnum \<Rightarrow> bool" where
  "is_zero x = (x = Fin 0)"

subsection \<open>The header and the volume\<close>

text \<open>
  The header as the reader delivers it: the counts, starts, axis numbers, mode and
  space group number are integers, the cell lengths, angles, origin and statistics are
  floating-point numbers.
\<close>

record Ccp4Header =
  NC :: int
  NR :: int
  NS :: int
  MODE :: int
  NCSTART :: int
  NRSTART :: int
  NSSTART :: int
  NX :: int
  NY :: int
  NZ :: int
  xLength :: jsnum
  yLength :: jsnum
  zLength :: jsnum
  alpha :: jsnum
  beta :: jsnum
  gamma :: jsnum
  MAPC :: int
  MAPR :: int
  MAPS :: int
  AMIN :: jsnum
  AMAX :: jsnum
  AMEAN :: jsnum
  ARMS :: jsnum
  ISPG :: int
  originX :: jsnum
  originY :: jsnum
  originZ :: jsnum

record Ccp4File =
  header :: Ccp4Header
  file_values :: "jsnum list"

text \<open>
  \<open>SpacegroupCell.create(nameOrNumber, size, anglesInRadians)\<close> is not part of this
  file; the cell is recorded as the three arguments it is created from.
\<close>

datatype spacegroup_id = SgNumber int | SgName string

record SpacegroupCell =
  spacegroup :: spacegroup_id
  cell_size :: Vec3
  anglesInRadians :: Vec3

datatype array_ctor = Int8Array | Float32Array

record TensorSpace =
  dimensions :: "jsnum list"
  axisOrderSlowToFast :: "int list"
  ctor :: array_ctor

record Tensor =
  space :: TensorSpace
  tensor_data :: "jsnum list"

record Box3D =
  box_min :: Vec3
  box_max :: Vec3

record DataStats =
  stats_min :: jsnum
  stats_max :: jsnum
  stats_mean :: jsnum
  stats_sigma :: jsnum

record VolumeData =
  cell :: SpacegroupCell
  fractionalBox :: Box3D
  data :: Tensor
  dataStats :: DataStats

text \<open>
  Modelled from the spec: \<open>degToRad\<close> of \<open>mol-math/misc\<close>, which is not among the
  sources; "angles, degrees\<rightarrow>radians".
\<close>

definition degToRad :: "jsnum \<Rightarrow> jsnum" where
  "degToRad deg = js_mul deg (Fin (pi / 180))"

text \<open>
  Modelled from the spec: \<open>Tensor.convertToCanonicalAxisIndicesFastToSlow\<close> and
  \<open>Tensor.invertAxisOrder\<close>, which are not among the sources; "axis order, 1-based
  \<rightarrow> converted to 0-based fast-to-slow order". The index table starts as zeros (an
  \<open>Int32Array\<close>), \<open>indices[order[i]] = i\<close> is written for each \<open>i\<close> (a write out of range
  does nothing), and the returned function reads \<open>xs[indices[i]]\<close>. It is applied to
  three-element arrays only, where every read is in range.
\<close>

definition canonical_indices :: "int list \<Rightarrow> nat list" where
  "canonical_indices order =
     foldl (\<lambda>indices i.
              if 0 \<le> order ! i \<and> nat (order ! i) < length indices
              then indices[nat (order ! i) := i] else indices)
           (replicate (length order) 0) [0..<length order]"

definition convertToCanonicalAxisIndicesFastToSlow :: "int list \<Rightarrow> 'a list \<Rightarrow> 'a list" where
  "convertToCanonicalAxisIndicesFastToSlow order xs =
     map (\<lambda>i. xs ! (canonical_indices order ! i)) [0..<length xs]"

definition invertAxisOrder :: "int list \<Rightarrow> int list" where
  "invertAxisOrder v = rev v"

definition vec3_mul :: "Vec3 \<Rightarrow> Vec3 \<Rightarrow> Vec3" where
  "vec3_mul a b =
     (case a of (a0, a1, a2) \<Rightarrow> case b of (b0, b1, b2) \<Rightarrow>
        (js_mul a0 b0, js_mul a1 b1, js_mul a2 b2))"

text \<open>\<open>Vec3.add(out, a, b)\<close> writes \<open>a + b\<close> into \<open>out\<close> and returns it.\<close>

definition vec3_add :: "Vec3 \<Rightarrow> Vec3 \<Rightarrow> Vec3" where
  "vec3_add a b =
     (case a of (a0, a1, a2) \<Rightarrow> case b of (b0, b1, b2) \<Rightarrow>
        (js_add a0 b0, js_add a1 b1, js_add a2 b2))"

text \<open>The local \<open>axis_order_fast_to_slow\<close>.\<close>

definition axis_order_fast_to_slow :: "Ccp4Header \<Rightarrow> int list" where
  "axis_order_fast_to_slow h = [MAPC h - 1, MAPR h - 1, MAPS h - 1]"

text \<open>
  \<open>volumeFromCcp4(source, params)\<close>; the second argument is the voxel size when
  \<open>params\<close> and \<open>params.voxelSize\<close> are both given. The task it creates has no failing
  branch.
\<close>

definition volumeFromCcp4 :: "Ccp4File \<Rightarrow> Vec3 option \<Rightarrow> VolumeData" where
  "volumeFromCcp4 source voxelSize =
     (let h = header source;
          size0 = (xLength h, yLength h, zLength h);
          size = (case voxelSize of None \<Rightarrow> size0 | Some vs \<Rightarrow> vec3_mul size0 vs);
          angles = (degToRad (alpha h), degToRad (beta h), degToRad (gamma h));
          cell = \<lparr>spacegroup = (if ISPG h = 0 then SgName ''P 1'' else SgNumber (ISPG h)),
                  cell_size = size, anglesInRadians = angles\<rparr>;
          normalizeOrder = convertToCanonicalAxisIndicesFastToSlow (axis_order_fast_to_slow h);
          grid = [num_of_int (NX h), num_of_int (NY h), num_of_int (NZ h)];
          extent = normalizeOrder [num_of_int (NC h), num_of_int (NR h), num_of_int (NS h)];
          gridOrigin =
            (if is_zero (originX h) \<and> is_zero (originY h) \<and> is_zero (originZ h)
             then normalizeOrder
                    [num_of_int (NCSTART h), num_of_int (NRSTART h), num_of_int (NSSTART h)]
             else [originX h, originY h, originZ h]);
          origin_frac = (js_div (gridOrigin ! 0) (grid ! 0), js_div (gridOrigin ! 1) (grid ! 1),
                         js_div (gridOrigin ! 2) (grid ! 2));
          dimensions_frac = (js_div (extent ! 0) (grid ! 0), js_div (extent ! 1) (grid ! 1),
                             js_div (extent ! 2) (grid ! 2));
          sp = \<lparr>dimensions = extent,
                axisOrderSlowToFast = invertAxisOrder (axis_order_fast_to_slow h),
                ctor = (if MODE h = 0 then Int8Array else Float32Array)\<rparr>
      in \<lparr>cell = cell,
          fractionalBox =
            \<lparr>box_min = origin_frac,
             box_max = vec3_add origin_frac dimensions_frac\<rparr>,
          data = \<lparr>space = sp, tensor_data = file_values source\<rparr>,
          dataStats = \<lparr>stats_min = AMIN h, stats_max = AMAX h, stats_mean = AMEAN h,
                       stats_sigma = ARMS h\<rparr>\<rparr>)"

text \<open>
  The header of the decode scenario, in the spec's words: \<open>MODE=0\<close>, the three lengths
  10, the three angles 90, \<open>MAPC=1, MAPR=2, MAPS=3\<close>, the origin fields zero and
  \<open>NCSTART=NRSTART=NSSTART=0\<close>.
\<close>

definition ccp4_scenario :: "Ccp4Header \<Rightarrow> bool" where
  "ccp4_scenario h =
     (MODE h = 0 \<and> xLength h = Fin 10 \<and> yLength h = Fin 10 \<and> zLength h = Fin 10
      \<and> alpha h = Fin 90 \<and> beta h = Fin 90 \<and> gamma h = Fin 90
      \<and> MAPC h = 1 \<and> MAPR h = 2 \<and> MAPS h = 3
      \<and> originX h = Fin 0 \<and> originY h = Fin 0 \<and> originZ h = Fin 0
      \<and> NCSTART h = 0 \<and> NRSTART h = 0 \<and> NSSTART h = 0)"

section \<open>Assembly symmetry (mol-plugin/behavior/dynamic/custom-props/rcsb/assembly-symmetry.ts)\<close>

subsection \<open>The transform \<open>AssemblySymmetry3D\<close> and the action \<open>InitAssemblySymmetry3D\<close>\<close>

text \<open>One entry of the assembly-symmetry value; \<open>sym_type\<close> is the field \<open>type\<close>.\<close>

record symmetry_entry =
  sym_type :: string
  kind :: string
  symbol :: string

text \<open>
  The parameters of the transform: \<open>symmetryIndex\<close>, and the values of
  \<open>AssemblySymmetryParams\<close> by name. \<open>{ ...old, ...new }\<close> lets every key of \<open>new\<close> win.
\<close>

record sym_params =
  symmetryIndex :: int
  other_params :: "string \<rightharpoonup> jsval"

definition spread :: "sym_params \<Rightarrow> sym_params \<Rightarrow> sym_params" where
  "spread old new =
     \<lparr>symmetryIndex = symmetryIndex new, other_params = other_params old ++ other_params new\<rparr>"

text \<open>
  What a task rejects with: a value thrown by a collaborator (as the text \<open>`${e}`\<close> gives),
  or the \<open>TypeError\<close> of destructuring \<open>undefined\<close>.
\<close>

datatype error = Thrown string | TypeError

datatype UpdateResult = Unchanged | Updated | Recreate

record ('s, 'r) Representation3D =
  repr :: 'r
  source :: 's
  label :: string
  description :: string

datatype ('s, 'r) StateObject = Null | Shape_Representation3D "('s, 'r) Representation3D"

text \<open>
  The collaborators that are not part of this file, as parameters. \<open>'s\<close> is the structure
  \<open>a.data\<close>, \<open>'p\<close> the store of custom properties, \<open>'r\<close> a representation.
  \<^item> \<open>attach a p\<close> is \<open>await AssemblySymmetryProvider.attach(ctx, a.data)\<close>: it leaves a
    store behind and either resolves (\<open>None\<close>) or rejects with \<open>e\<close> (\<open>Some e\<close>);
  \<^item> \<open>get_value a p\<close> is \<open>AssemblySymmetryProvider.get(a.data).value\<close>, \<open>None\<close> when it is
    \<open>undefined\<close>;
  \<^item> \<open>newRepresentation\<close> is \<open>AssemblySymmetryRepresentation(ctx, getParams)\<close>;
  \<^item> \<open>createOrUpdate props a r\<close> is \<open>await r.createOrUpdate(props, a.data).runInContext(ctx)\<close>:
    the representation as it is afterwards, or the value the task rejects with;
  \<^item> \<open>repr_props r\<close> is \<open>r.props\<close>.
\<close>

record ('s, 'p, 'r) collaborators =
  attach :: "'s \<Rightarrow> 'p \<Rightarrow> string option \<times> 'p"
  get_value :: "'s \<Rightarrow> 'p \<Rightarrow> symmetry_entry list option"
  newRepresentation :: 'r
  createOrUpdate :: "sym_params \<Rightarrow> 's \<Rightarrow> 'r \<Rightarrow> string + 'r"
  repr_props :: "'r \<Rightarrow> sym_params"

text \<open>\<open>xs[i]\<close> for a number \<open>i\<close>: \<open>undefined\<close> (\<open>None\<close>) outside the array.\<close>

definition array_get :: "'a list \<Rightarrow> int \<Rightarrow> 'a option" where
  "array_get xs i = (if 0 \<le> i \<and> nat i < length xs then Some (xs ! nat i) else None)"

definition symmetry_description :: "symmetry_entry \<Rightarrow> string" where
  "symmetry_description s = sym_type s @ '' ('' @ symbol s @ '')''"

text \<open>\<open>AssemblySymmetry3D.apply\<close>: the outcome of the task and the store it leaves.\<close>

definition AssemblySymmetry3D_apply ::
  "('s, 'p, 'r) collaborators \<Rightarrow> 's \<Rightarrow> sym_params \<Rightarrow> 'p \<Rightarrow> (error + ('s, 'r) StateObject) \<times> 'p" where
  "AssemblySymmetry3D_apply ext a params p =
     (case attach ext a p of
        (Some e, p') \<Rightarrow> (Inl (Thrown e), p')
      | (None, p') \<Rightarrow>
          (case get_value ext a p' of
             None \<Rightarrow> (Inr Null, p')
           | Some assemblySymmetry \<Rightarrow>
               if length assemblySymmetry = 0 then (Inr Null, p')
               else
                 (case createOrUpdate ext params a (newRepresentation ext) of
                    Inl e \<Rightarrow> (Inl (Thrown e), p')
                  | Inr r \<Rightarrow>
                      (case array_get assemblySymmetry (symmetryIndex params) of
                         None \<Rightarrow> (Inl TypeError, p')
                       | Some s \<Rightarrow>
                           (Inr (Shape_Representation3D
                                   \<lparr>repr = r, source = a, label = kind s,
                                    description = symmetry_description s\<rparr>), p')))))"

text \<open>
  \<open>AssemblySymmetry3D.update\<close>: the outcome of the task, the object \<open>b\<close> as the task
  leaves it (it is changed in place), and the store.
\<close>

definition AssemblySymmetry3D_update ::
  "('s, 'p, 'r) collaborators \<Rightarrow> 's \<Rightarrow> ('s, 'r) Representation3D \<Rightarrow> sym_params \<Rightarrow> 'p
     \<Rightarrow> (error + UpdateResult) \<times> ('s, 'r) Representation3D \<times> 'p" where
  "AssemblySymmetry3D_update ext a b newParams p =
     (case attach ext a p of
        (Some e, p') \<Rightarrow> (Inl (Thrown e), b, p')
      | (None, p') \<Rightarrow>
          (case get_value ext a p' of
             None \<Rightarrow> (Inr Recreate, b, p')
           | Some assemblySymmetry \<Rightarrow>
               if length assemblySymmetry = 0 then (Inr Recreate, b, p')
               else
                 (case createOrUpdate ext (spread (repr_props ext (repr b)) newParams) a (repr b) of
                    Inl e \<Rightarrow> (Inl (Thrown e), b, p')
                  | Inr r \<Rightarrow>
                      (case array_get assemblySymmetry (symmetryIndex newParams) of
                         None \<Rightarrow> (Inl TypeError, b\<lparr>repr := r\<rparr>, p')
                       | Some s \<Rightarrow>
                           (Inr Updated,
                            b\<lparr>repr := r, label := kind s,
                              description := symmetry_description s\<rparr>, p')))))"

text \<open>
  The plugin as the action sees it: the store of custom properties, the error lines of
  \<open>plugin.log\<close>, and the state tree. \<open>updateTree ref w\<close> stands for building
  \<open>state.build().to(ref).apply(AssemblySymmetry3D)\<close> and awaiting
  \<open>state.updateTree(tree).runInContext(ctx)\<close>; the state tree is not part of this file.
\<close>

record ('p, 't) plugin =
  custom :: 'p
  log_errors :: "string list"
  tree :: 't

definition InitAssemblySymmetry3D_run ::
  "('s, 'p, 'r) collaborators \<Rightarrow> ('ref \<Rightarrow> ('p, 't) plugin \<Rightarrow> (error + unit) \<times> ('p, 't) plugin)
     \<Rightarrow> 's \<Rightarrow> 'ref \<Rightarrow> ('p, 't) plugin \<Rightarrow> (error + unit) \<times> ('p, 't) plugin" where
  "InitAssemblySymmetry3D_run ext updateTree a ref w =
     (case attach ext a (custom w) of
        (Some e, p') \<Rightarrow>
          (Inr (), w\<lparr>custom := p', log_errors := log_errors w @ [''Assembly Symmetry: '' @ e]\<rparr>)
      | (None, p') \<Rightarrow> updateTree ref (w\<lparr>custom := p'\<rparr>))"

subsection \<open>The behavior \<open>RCSBAssemblySymmetry\<close>\<close>

datatype StateAction = InitAssemblySymmetry3D | OtherAction string

datatype ColorThemeProvider = AssemblySymmetryClusterColorThemeProvider | OtherColorTheme string

record CustomPropertyProvider =
  descriptor_name :: string

text \<open>
  Modelled from the spec: the plugin's registries (\<open>state.dataState.actions\<close>,
  \<open>customStructureProperties\<close>, \<open>themeCtx.colorThemeRegistry\<close>), whose classes are not
  among the sources. "Installs ... into the running plugin's registries", compared by
  "set-equality before/after": the actions and the color themes are sets, \<open>add\<close> inserts
  and \<open>remove\<close> deletes; the custom structure properties are kept by descriptor name,
  the provider and its default auto-attach flag each in a map, \<open>register\<close> writes both,
  \<open>unregister\<close> deletes both and \<open>setDefaultAutoAttach\<close> writes the flag.
\<close>

record PluginContext =
  actions :: "StateAction set"
  providers :: "string \<rightharpoonup> CustomPropertyProvider"
  defaultAutoAttachValues :: "string \<rightharpoonup> bool"
  colorThemeRegistry :: "ColorThemeProvider set"

datatype registry_call =
    ActionsAdd StateAction
  | ActionsRemove StateAction
  | PropsRegister CustomPropertyProvider bool
  | PropsUnregister string
  | PropsSetDefaultAutoAttach string bool
  | ThemesAdd ColorThemeProvider
  | ThemesRemove ColorThemeProvider

fun run_call :: "PluginContext \<Rightarrow> registry_call \<Rightarrow> PluginContext" where
  "run_call c (ActionsAdd a) = c\<lparr>actions := insert a (actions c)\<rparr>"
| "run_call c (ActionsRemove a) = c\<lparr>actions := actions c - {a}\<rparr>"
| "run_call c (PropsRegister pr auto) =
     c\<lparr>providers := (providers c)(descriptor_name pr \<mapsto> pr),
       defaultAutoAttachValues := (defaultAutoAttachValues c)(descriptor_name pr \<mapsto> auto)\<rparr>"
| "run_call c (PropsUnregister name) =
     c\<lparr>providers := (providers c)(name := None),
       defaultAutoAttachValues := (defaultAutoAttachValues c)(name := None)\<rparr>"
| "run_call c (PropsSetDefaultAutoAttach name v) =
     c\<lparr>defaultAutoAttachValues := (defaultAutoAttachValues c)(name \<mapsto> v)\<rparr>"
| "run_call c (ThemesAdd t) = c\<lparr>colorThemeRegistry := insert t (colorThemeRegistry c)\<rparr>"
| "run_call c (ThemesRemove t) = c\<lparr>colorThemeRegistry := colorThemeRegistry c - {t}\<rparr>"

text \<open>The call that takes back what a call installed.\<close>

fun undo_call :: "registry_call \<Rightarrow> registry_call" where
  "undo_call (ActionsAdd a) = ActionsRemove a"
| "undo_call (PropsRegister pr auto) = PropsUnregister (descriptor_name pr)"
| "undo_call (ThemesAdd t) = ThemesRemove t"
| "undo_call c = c"

text \<open>
  The declared parameters of the behavior (\<open>params: () => ({ autoAttach, serverUrl })\<close>)
  and the handler: its context, its current parameters and its provider.
\<close>

record behavior_params =
  autoAttach :: bool
  serverUrl :: string

record Handler =
  ctx :: PluginContext
  params :: behavior_params
  provider :: CustomPropertyProvider

text \<open>The registry calls of \<open>register()\<close> and of \<open>unregister()\<close>, in the order they are made.\<close>

definition register_calls :: "Handler \<Rightarrow> registry_call list" where
  "register_calls h =
     [ActionsAdd InitAssemblySymmetry3D,
      PropsRegister (provider h) (autoAttach (params h)),
      ThemesAdd AssemblySymmetryClusterColorThemeProvider]"

definition unregister_calls :: "Handler \<Rightarrow> registry_call list" where
  "unregister_calls h =
     [ActionsRemove InitAssemblySymmetry3D,
      PropsUnregister (descriptor_name (provider h)),
      ThemesRemove AssemblySymmetryClusterColorThemeProvider]"

definition register :: "Handler \<Rightarrow> Handler" where
  "register h = h\<lparr>ctx := foldl run_call (ctx h) (register_calls h)\<rparr>"

definition unregister :: "Handler \<Rightarrow> Handler" where
  "unregister h = h\<lparr>ctx := foldl run_call (ctx h) (unregister_calls h)\<rparr>"

text \<open>\<open>update(p)\<close>: the value returned and the handler afterwards.\<close>

definition update :: "behavior_params \<Rightarrow> Handler \<Rightarrow> bool \<times> Handler" where
  "update p h =
     (let updated = (autoAttach (params h) \<noteq> autoAttach p);
          params' = (params h)\<lparr>autoAttach := autoAttach p\<rparr>
      in (updated,
          h\<lparr>params := params',
            ctx := run_call (ctx h)
                     (PropsSetDefaultAutoAttach (descriptor_name (provider h)) (autoAttach params'))\<rparr>))"

section \<open>Concrete inputs\<close>

text \<open>
  A header of the decode scenario with space group number \<open>ispg\<close>, on an 8 by 8 by 8
  grid.
\<close>

definition scenario_header :: "int \<Rightarrow> Ccp4Header" where
  "scenario_header ispg =
     \<lparr>NC = 8, NR = 8, NS = 8, MODE = 0, NCSTART = 0, NRSTART = 0, NSSTART = 0,
      NX = 8, NY = 8, NZ = 8, xLength = Fin 10, yLength = Fin 10, zLength = Fin 10,
      alpha = Fin 90, beta = Fin 90, gamma = Fin 90, MAPC = 1, MAPR = 2, MAPS = 3,
      AMIN = Fin 0, AMAX = Fin 1, AMEAN = Fin 0, ARMS = Fin 1, ISPG = ispg,
      originX = Fin 0, originY = Fin 0, originZ = Fin 0\<rparr>"

text \<open>
  A header with columns along y and rows along x (\<open>MAPC=2, MAPR=1, MAPS=3\<close>), starts
  \<open>(1, 2, 3)\<close>, a 10 by 20 by 30 grid and the origin fields \<open>(ox, oy, oz)\<close>.
\<close>

definition swapped_header :: "jsnum \<Rightarrow> jsnum \<Rightarrow> jsnum \<Rightarrow> Ccp4Header" where
  "swapped_header ox oy oz =
     \<lparr>NC = 4, NR = 5, NS = 6, MODE = 2, NCSTART = 1, NRSTART = 2, NSSTART = 3,
      NX = 10, NY = 20, NZ = 30, xLength = Fin 10, yLength = Fin 20, zLength = Fin 30,
      alpha = Fin 90, beta = Fin 90, gamma = Fin 90, MAPC = 2, MAPR = 1, MAPS = 3,
      AMIN = Fin 0, AMAX = Fin 1, AMEAN = Fin 0, ARMS = Fin 1, ISPG = 1,
      originX = ox, originY = oy, originZ = oz\<rparr>"

text \<open>
  Collaborators for a structure numbered by a natural number. The store holds the value
  of the property; \<open>attach\<close> rejects with \<open>e\<close> when \<open>e\<close> is given and otherwise stores \<open>v\<close>;
  a representation is given by its props, and \<open>createOrUpdate\<close> resolves.
\<close>

definition example_ext ::
  "string option \<Rightarrow> symmetry_entry list option
     \<Rightarrow> (nat, symmetry_entry list option, sym_params) collaborators" where
  "example_ext e v =
     \<lparr>attach = (\<lambda>a p. case e of None \<Rightarrow> (None, v) | Some x \<Rightarrow> (Some x, p)),
      get_value = (\<lambda>a p. p),
      newRepresentation = \<lparr>symmetryIndex = 0, other_params = Map.empty\<rparr>,
      createOrUpdate = (\<lambda>props a r. Inr props),
      repr_props = (\<lambda>r. r)\<rparr>"

definition example_entry :: symmetry_entry where
  "example_entry = \<lparr>sym_type = ''Cyclic'', kind = ''Global Symmetry'', symbol = ''C2''\<rparr>"

definition example_params :: "int \<Rightarrow> sym_params" where
  "example_params i = \<lparr>symmetryIndex = i, other_params = Map.empty\<rparr>"

definition example_b :: "(nat, sym_params) Representation3D" where
  "example_b = \<lparr>repr = example_params 0, source = 0, label = ''old'', description = ''old''\<rparr>"

text \<open>A plugin whose tree is the list of the refs a node was added under.\<close>

definition example_plugin :: "(symmetry_entry list option, nat list) plugin" where
  "example_plugin = \<lparr>custom = None, log_errors = [], tree = []\<rparr>"

definition example_updateTree ::
  "nat \<Rightarrow> (symmetry_entry list option, nat list) plugin
     \<Rightarrow> (error + unit) \<times> (symmetry_entry list option, nat list) plugin" where
  "example_updateTree ref w = (Inr (), w\<lparr>tree := ref # tree w\<rparr>)"

text \<open>A handler on a plugin whose registries hold the actions \<open>A\<close> and nothing else.\<close>

definition example_handler :: "StateAction set \<Rightarrow> Handler" where
  "example_handler A =
     \<lparr>ctx = \<lparr>actions = A, providers = Map.empty, defaultAutoAttachValues = Map.empty,
              colorThemeRegistry = {}\<rparr>,
      params = \<lparr>autoAttach = False, serverUrl = ''https://a.example''\<rparr>,
      provider = \<lparr>descriptor_name = ''rcsb_struct_symmetry''\<rparr>\<rparr>"

section \<open>Properties of the structure query properties\<close>

lemma atomic_only_not_atomic: "\<not> isAtomic (unit l) \<Longrightarrow> atomic_only f l = notAtomic"
  by (cases "unit l") simp_all

lemmas atomic_property_defs =
  atom_id_def atom_occupancy_def atom_B_iso_or_equiv_def atom_type_symbol_def
  atom_label_atom_id_def atom_auth_atom_id_def atom_label_alt_id_def
  atom_pdbx_formal_charge_def residue_key_def residue_group_PDB_def
  residue_label_comp_id_def residue_auth_comp_id_def residue_label_seq_id_def
  residue_auth_seq_id_def residue_pdbx_PDB_ins_code_def chain_key_def
  chain_label_asym_id_def chain_auth_asym_id_def chain_label_entity_id_def

lemmas total_property_defs =
  constant_true_def constant_false_def constant_zero_def atom_key_def atom_x_def atom_y_def
  atom_z_def

text \<open>
  C9. At a location whose unit is not atomic, each of the atomic-only properties
  (\<open>atom.id\<close>, \<open>atom.occupancy\<close>, \<open>atom.B_iso_or_equiv\<close>, the five atom hierarchy
  properties, every \<open>residue.*\<close> and every \<open>chain.*\<close>) throws
  \<open>'Property only available for atomic models.'\<close>; and at every location, whatever the
  kind of its unit, \<open>constant.true\<close>, \<open>constant.false\<close>, \<open>constant.zero\<close>, \<open>atom.key\<close>,
  \<open>atom.x\<close>, \<open>atom.y\<close> and \<open>atom.z\<close> return a value.
\<close>

theorem atomic_only_properties_throw:
  "(\<not> isAtomic (unit l) \<longrightarrow>
      atom_id l = Inl ''Property only available for atomic models.''
    \<and> atom_occupancy l = Inl ''Property only available for atomic models.''
    \<and> atom_B_iso_or_equiv l = Inl ''Property only available for atomic models.''
    \<and> atom_type_symbol l = Inl ''Property only available for atomic models.''
    \<and> atom_label_atom_id l = Inl ''Property only available for atomic models.''
    \<and> atom_auth_atom_id l = Inl ''Property only available for atomic models.''
    \<and> atom_label_alt_id l = Inl ''Property only available for atomic models.''
    \<and> atom_pdbx_formal_charge l = Inl ''Property only available for atomic models.''
    \<and> residue_key l = Inl ''Property only available for atomic models.''
    \<and> residue_group_PDB l = Inl ''Property only available for atomic models.''
    \<and> residue_label_comp_id l = Inl ''Property only available for atomic models.''
    \<and> residue_auth_comp_id l = Inl ''Property only available for atomic models.''
    \<and> residue_label_seq_id l = Inl ''Property only available for atomic models.''
    \<and> residue_auth_seq_id l = Inl ''Property only available for atomic models.''
    \<and> residue_pdbx_PDB_ins_code l = Inl ''Property only available for atomic models.''
    \<and> chain_key l = Inl ''Property only available for atomic models.''
    \<and> chain_label_asym_id l = Inl ''Property only available for atomic models.''
    \<and> chain_auth_asym_id l = Inl ''Property only available for atomic models.''
    \<and> chain_label_entity_id l = Inl ''Property only available for atomic models.'')
   \<and> constant_true l = Inr (JBool True)
   \<and> constant_false l = Inr (JBool False)
   \<and> constant_zero l = Inr (JNum (Fin 0))
   \<and> atom_key l = Inr (JNum (num_of_int (element l)))
   \<and> atom_x l = Inr (JNum (unit_x (coords (unit l)) (element l)))
   \<and> atom_y l = Inr (JNum (unit_y (coords (unit l)) (element l)))
   \<and> atom_z l = Inr (JNum (unit_z (coords (unit l)) (element l)))"
proof -
  have guarded: "atomic_only f l = Inl ''Property only available for atomic models.''"
    if "\<not> isAtomic (unit l)" for f
    using atomic_only_not_atomic [OF that] by (simp add: notAtomic_def)
  show ?thesis
    unfolding atomic_property_defs total_property_defs
    by (intro conjI impI guarded refl)
qed

text \<open>The same at a spheres unit, element 7, with coordinates \<open>(1, 2, 3)\<close>.\<close>

theorem atomic_only_properties_throw_witness:
  "\<not> isAtomic (unit \<lparr>unit = Spheres \<lparr>unit_x = \<lambda>i. Fin 1, unit_y = \<lambda>i. Fin 2, unit_z = \<lambda>i. Fin 3\<rparr>,
                      element = 7\<rparr>)
   \<and> atom_id \<lparr>unit = Spheres \<lparr>unit_x = \<lambda>i. Fin 1, unit_y = \<lambda>i. Fin 2, unit_z = \<lambda>i. Fin 3\<rparr>,
               element = 7\<rparr> = Inl ''Property only available for atomic models.''
   \<and> residue_key \<lparr>unit = Spheres \<lparr>unit_x = \<lambda>i. Fin 1, unit_y = \<lambda>i. Fin 2, unit_z = \<lambda>i. Fin 3\<rparr>,
               element = 7\<rparr> = Inl ''Property only available for atomic models.''
   \<and> chain_key \<lparr>unit = Spheres \<lparr>unit_x = \<lambda>i. Fin 1, unit_y = \<lambda>i. Fin 2, unit_z = \<lambda>i. Fin 3\<rparr>,
               element = 7\<rparr> = Inl ''Property only available for atomic models.''
   \<and> atom_x \<lparr>unit = Spheres \<lparr>unit_x = \<lambda>i. Fin 1, unit_y = \<lambda>i. Fin 2, unit_z = \<lambda>i. Fin 3\<rparr>,
               element = 7\<rparr> = Inr (JNum (Fin 1))"
  using atomic_only_properties_throw
    [of "\<lparr>unit = Spheres \<lparr>unit_x = \<lambda>i. Fin 1, unit_y = \<lambda>i. Fin 2, unit_z = \<lambda>i. Fin 3\<rparr>,
          element = 7\<rparr>"]
  by simp

section \<open>Properties of \<open>Model.getCenter\<close>\<close>

lemma getCenter_cached_case:
  "truthy (read_prop (dynamicPropertyData m) CenterProp) \<Longrightarrow>
     getCenter centre m h = (read_prop (dynamicPropertyData m) CenterProp, m, h)"
  by (simp add: getCenter_def)

lemma getCenter_compute_case:
  "\<not> truthy (read_prop (dynamicPropertyData m) CenterProp) \<Longrightarrow>
     getCenter centre m h =
       (Ref (length (vecs h)),
        m\<lparr>dynamicPropertyData := (dynamicPropertyData m)(CenterProp \<mapsto> Ref (length (vecs h)))\<rparr>,
        h\<lparr>vecs := vecs h @ [centre (atomicConformation m) (coarseConformation m)],
          calc_calls := Suc (calc_calls h)\<rparr>)"
  by (simp add: getCenter_def calcModelCenter_def)

lemma truthy_read_prop: "truthy (read_prop d k) \<Longrightarrow> d k = Some (read_prop d k)"
  by (cases "d k") (simp_all add: read_prop_def)

lemma getCenter_stores:
  assumes "getCenter centre m h = (v, m1, h1)"
  shows "dynamicPropertyData m1 CenterProp = Some v \<and> truthy v"
proof (cases "truthy (read_prop (dynamicPropertyData m) CenterProp)")
  case True
  with assms have "v = read_prop (dynamicPropertyData m) CenterProp" "m1 = m"
    by (auto simp: getCenter_cached_case)
  with True show ?thesis by (simp add: truthy_read_prop)
next
  case False
  with assms show ?thesis by (auto simp: getCenter_compute_case)
qed

lemma getCenter_fixed:
  assumes "getCenter centre m h = (v, m1, h1)"
  shows "getCenter centre m1 h1 = (v, m1, h1)"
proof -
  from getCenter_stores [OF assms]
  have "read_prop (dynamicPropertyData m1) CenterProp = v" and "truthy v"
    by (simp_all add: read_prop_def)
  then show ?thesis by (simp add: getCenter_cached_case)
qed

lemma getCenter_again_funpow:
  assumes "getCenter centre m h = (v, m1, h1)"
  shows "(getCenter_again centre ^^ n) (v, m1, h1) = (v, m1, h1)"
proof (induction n)
  case 0
  show ?case by simp
next
  case (Suc n)
  then show ?case by (simp add: getCenter_again_def getCenter_fixed [OF assms])
qed

lemma getCenter_calls:
  assumes "getCenter centre m h = (v, m1, h1)"
  shows "calc_calls h1 =
           (if truthy (read_prop (dynamicPropertyData m) CenterProp) then calc_calls h
            else calc_calls h + 1)"
  using assms by (auto simp: getCenter_cached_case getCenter_compute_case)

text \<open>
  C10. A call of \<open>Model.getCenter\<close> calls \<open>calcModelCenter\<close> at most once. When the model
  holds nothing truthy under \<open>'__Center__'\<close>, it calls it exactly once and returns the
  new vector. In both cases the value returned is afterwards the one stored under
  \<open>'__Center__'\<close> of the model's dynamic property data, and every later call (any
  number \<open>n\<close> of them in a row) returns that same reference and leaves the model and the
  heap as they are, so \<open>calcModelCenter\<close> is not called again.
\<close>

theorem getCenter_computes_once:
  assumes "getCenter centre m h = (v, m1, h1)"
  shows "calc_calls h1 \<le> calc_calls h + 1
       \<and> (\<not> truthy (read_prop (dynamicPropertyData m) CenterProp) \<longrightarrow>
            calc_calls h1 = calc_calls h + 1 \<and> v = Ref (length (vecs h))
            \<and> vecs h1 ! length (vecs h) = centre (atomicConformation m) (coarseConformation m))
       \<and> dynamicPropertyData m1 CenterProp = Some v
       \<and> getCenter centre m1 h1 = (v, m1, h1)
       \<and> (getCenter_again centre ^^ n) (v, m1, h1) = (v, m1, h1)
       \<and> calc_calls (snd (snd ((getCenter_again centre ^^ n) (v, m1, h1)))) = calc_calls h1"
proof -
  have "calc_calls h1 \<le> calc_calls h + 1"
    using getCenter_calls [OF assms] by simp
  moreover have "\<not> truthy (read_prop (dynamicPropertyData m) CenterProp) \<longrightarrow>
            calc_calls h1 = calc_calls h + 1 \<and> v = Ref (length (vecs h))
            \<and> vecs h1 ! length (vecs h) = centre (atomicConformation m) (coarseConformation m)"
    using assms by (auto simp: getCenter_compute_case)
  moreover have "dynamicPropertyData m1 CenterProp = Some v"
    using getCenter_stores [OF assms] by simp
  moreover note getCenter_fixed [OF assms] getCenter_again_funpow [OF assms, of n]
  ultimately show ?thesis by simp
qed

text \<open>
  A model with empty dynamic property data and an empty heap: the first call computes
  the centre \<open>(1, 2, 3)\<close> at address 0, and three more calls return the same reference.
\<close>

theorem getCenter_computes_once_witness:
  "getCenter (\<lambda>ac cc. (Fin 1, Fin 2, Fin 3))
     \<lparr>atomicConformation = (), coarseConformation = (), dynamicPropertyData = Map.empty\<rparr>
     \<lparr>vecs = [], calc_calls = 0\<rparr>
   = (Ref 0,
      \<lparr>atomicConformation = (), coarseConformation = (),
       dynamicPropertyData = [CenterProp \<mapsto> Ref 0]\<rparr>,
      \<lparr>vecs = [(Fin 1, Fin 2, Fin 3)], calc_calls = 1\<rparr>)
   \<and> (getCenter_again (\<lambda>ac cc. (Fin 1, Fin 2, Fin 3)) ^^ 3)
       (Ref 0,
        \<lparr>atomicConformation = (), coarseConformation = (),
         dynamicPropertyData = [CenterProp \<mapsto> Ref 0]\<rparr>,
        \<lparr>vecs = [(Fin 1, Fin 2, Fin 3)], calc_calls = 1\<rparr>)
     = (Ref 0,
        \<lparr>atomicConformation = (), coarseConformation = (),
         dynamicPropertyData = [CenterProp \<mapsto> Ref 0]\<rparr>,
        \<lparr>vecs = [(Fin 1, Fin 2, Fin 3)], calc_calls = 1\<rparr>)"
proof -
  have first: "getCenter (\<lambda>ac cc. (Fin 1, Fin 2, Fin 3))
     \<lparr>atomicConformation = (), coarseConformation = (), dynamicPropertyData = Map.empty\<rparr>
     \<lparr>vecs = [], calc_calls = 0\<rparr>
   = (Ref 0,
      \<lparr>atomicConformation = (), coarseConformation = (),
       dynamicPropertyData = [CenterProp \<mapsto> Ref 0]\<rparr>,
      \<lparr>vecs = [(Fin 1, Fin 2, Fin 3)], calc_calls = 1\<rparr>)"
    by (simp add: getCenter_def calcModelCenter_def read_prop_def)
  from getCenter_computes_once [OF first, of 3] first show ?thesis by simp
qed

section \<open>Properties of the CCP4 volume\<close>

lemma canonical_indices_identity: "canonical_indices [0, 1, 2] = [0, 1, 2]"
  by (simp add: canonical_indices_def upt_rec)

lemma normalizeOrder_identity:
  "convertToCanonicalAxisIndicesFastToSlow [0, 1, 2] [a, b, c] = [a, b, c]"
  by (simp add: convertToCanonicalAxisIndicesFastToSlow_def canonical_indices_identity upt_rec)

lemma degToRad_90: "degToRad (Fin 90) = Fin (pi / 2)"
  by (simp add: degToRad_def)

lemma js_div_zero: "n \<noteq> 0 \<Longrightarrow> js_div (num_of_int 0) (num_of_int n) = Fin 0"
  by (simp add: num_of_int_def)

text \<open>
  C5, as the code has it. For a header of the decode scenario whose space group number
  \<open>ISPG\<close> is 0 and whose grid counts \<open>NX\<close>, \<open>NY\<close>, \<open>NZ\<close> are not 0, the cell has
  spacegroup \<open>'P 1'\<close>, its three angles are \<pi>/2, the axis order is the identity
  \<open>(0, 1, 2)\<close> and the fractional origin is \<open>(0, 0, 0)\<close>.
\<close>

theorem ccp4_scenario_cell:
  assumes "ccp4_scenario (header src)"
    and "ISPG (header src) = 0"
    and "NX (header src) \<noteq> 0" and "NY (header src) \<noteq> 0" and "NZ (header src) \<noteq> 0"
  shows "spacegroup (cell (volumeFromCcp4 src voxelSize)) = SgName ''P 1''
       \<and> anglesInRadians (cell (volumeFromCcp4 src voxelSize))
           = (Fin (pi / 2), Fin (pi / 2), Fin (pi / 2))
       \<and> axis_order_fast_to_slow (header src) = [0, 1, 2]
       \<and> axisOrderSlowToFast (space (data (volumeFromCcp4 src voxelSize))) = [2, 1, 0]
       \<and> box_min (fractionalBox (volumeFromCcp4 src voxelSize)) = (Fin 0, Fin 0, Fin 0)"
proof -
  have order: "axis_order_fast_to_slow (header src) = [0, 1, 2]"
    using assms(1) by (simp add: ccp4_scenario_def axis_order_fast_to_slow_def)
  have origin: "originX (header src) = Fin 0" "originY (header src) = Fin 0"
      "originZ (header src) = Fin 0" "NCSTART (header src) = 0"
      "NRSTART (header src) = 0" "NSSTART (header src) = 0"
    using assms(1) by (simp_all add: ccp4_scenario_def)
  have angles: "alpha (header src) = Fin 90" "beta (header src) = Fin 90"
      "gamma (header src) = Fin 90"
    using assms(1) by (simp_all add: ccp4_scenario_def)
  have "spacegroup (cell (volumeFromCcp4 src voxelSize)) = SgName ''P 1''"
    using assms(2) by (simp add: volumeFromCcp4_def Let_def)
  moreover have "anglesInRadians (cell (volumeFromCcp4 src voxelSize))
           = (Fin (pi / 2), Fin (pi / 2), Fin (pi / 2))"
    by (simp add: volumeFromCcp4_def Let_def angles degToRad_90)
  moreover have "axisOrderSlowToFast (space (data (volumeFromCcp4 src voxelSize))) = [2, 1, 0]"
    by (simp add: volumeFromCcp4_def Let_def order invertAxisOrder_def)
  moreover have "box_min (fractionalBox (volumeFromCcp4 src voxelSize)) = (Fin 0, Fin 0, Fin 0)"
    using assms(3-5)
    by (simp add: volumeFromCcp4_def Let_def order origin is_zero_def normalizeOrder_identity
        js_div_zero)
  ultimately show ?thesis using order by simp
qed

text \<open>The scenario header with \<open>ISPG = 0\<close> on the 8 by 8 by 8 grid.\<close>

theorem ccp4_scenario_cell_witness:
  "ccp4_scenario (scenario_header 0)
   \<and> spacegroup (cell (volumeFromCcp4 \<lparr>header = scenario_header 0, file_values = []\<rparr> None))
       = SgName ''P 1''
   \<and> anglesInRadians (cell (volumeFromCcp4 \<lparr>header = scenario_header 0, file_values = []\<rparr> None))
       = (Fin (pi / 2), Fin (pi / 2), Fin (pi / 2))
   \<and> box_min (fractionalBox
        (volumeFromCcp4 \<lparr>header = scenario_header 0, file_values = []\<rparr> None))
       = (Fin 0, Fin 0, Fin 0)"
proof -
  have sc: "ccp4_scenario (header \<lparr>header = scenario_header 0, file_values = []\<rparr>)"
    by (simp add: ccp4_scenario_def scenario_header_def)
  have rest: "ISPG (header \<lparr>header = scenario_header 0, file_values = []\<rparr>) = 0"
    "NX (header \<lparr>header = scenario_header 0, file_values = []\<rparr>) \<noteq> 0"
    "NY (header \<lparr>header = scenario_header 0, file_values = []\<rparr>) \<noteq> 0"
    "NZ (header \<lparr>header = scenario_header 0, file_values = []\<rparr>) \<noteq> 0"
    by (simp_all add: scenario_header_def)
  from ccp4_scenario_cell [OF sc rest, of None] sc show ?thesis by simp
qed

text \<open>
  C5 as stated fails: a header of the decode scenario whose space group number is 19
  gives a cell created from the number 19, not from \<open>'P 1'\<close>.
\<close>

theorem ccp4_scenario_spacegroup_counterexample:
  "ccp4_scenario (scenario_header 19)
   \<and> spacegroup (cell (volumeFromCcp4 \<lparr>header = scenario_header 19, file_values = []\<rparr> None))
       = SgNumber 19
   \<and> spacegroup (cell (volumeFromCcp4 \<lparr>header = scenario_header 19, file_values = []\<rparr> None))
       \<noteq> SgName ''P 1''"
  by (simp add: ccp4_scenario_def scenario_header_def volumeFromCcp4_def Let_def)

text \<open>
  C6. When the three origin fields are all zero, the grid origin of the volume is
  \<open>NCSTART\<close>, \<open>NRSTART\<close>, \<open>NSSTART\<close> reordered into the canonical axis order; when at
  least one of them is not zero, it is \<open>originX\<close>, \<open>originY\<close>, \<open>originZ\<close>. The grid origin
  is read off the volume as the lower corner of its fractional box, which is the grid
  origin divided by \<open>NX\<close>, \<open>NY\<close>, \<open>NZ\<close>.
\<close>

theorem volumeFromCcp4_grid_origin:
  "(originX (header src) = Fin 0 \<and> originY (header src) = Fin 0 \<and> originZ (header src) = Fin 0
      \<longrightarrow>
      box_min (fractionalBox (volumeFromCcp4 src voxelSize)) =
        (js_div (convertToCanonicalAxisIndicesFastToSlow
                   [MAPC (header src) - 1, MAPR (header src) - 1, MAPS (header src) - 1]
                   [num_of_int (NCSTART (header src)), num_of_int (NRSTART (header src)),
                    num_of_int (NSSTART (header src))] ! 0)
                (num_of_int (NX (header src))),
         js_div (convertToCanonicalAxisIndicesFastToSlow
                   [MAPC (header src) - 1, MAPR (header src) - 1, MAPS (header src) - 1]
                   [num_of_int (NCSTART (header src)), num_of_int (NRSTART (header src)),
                    num_of_int (NSSTART (header src))] ! 1)
                (num_of_int (NY (header src))),
         js_div (convertToCanonicalAxisIndicesFastToSlow
                   [MAPC (header src) - 1, MAPR (header src) - 1, MAPS (header src) - 1]
                   [num_of_int (NCSTART (header src)), num_of_int (NRSTART (header src)),
                    num_of_int (NSSTART (header src))] ! 2)
                (num_of_int (NZ (header src)))))
   \<and> (\<not> (originX (header src) = Fin 0 \<and> originY (header src) = Fin 0
           \<and> originZ (header src) = Fin 0)
      \<longrightarrow>
      box_min (fractionalBox (volumeFromCcp4 src voxelSize)) =
        (js_div (originX (header src)) (num_of_int (NX (header src))),
         js_div (originY (header src)) (num_of_int (NY (header src))),
         js_div (originZ (header src)) (num_of_int (NZ (header src)))))"
  by (simp add: volumeFromCcp4_def Let_def is_zero_def axis_order_fast_to_slow_def)

lemma canonical_indices_swapped: "canonical_indices [1, 0, 2] = [1, 0, 2]"
  by (simp add: canonical_indices_def upt_rec)

text \<open>
  The swapped header: with zero origin fields the grid origin is the starts reordered,
  \<open>(2, 1, 3)\<close>, so the corner is \<open>(2/10, 1/20, 3/30)\<close>; with origin fields \<open>(0, 5, 0)\<close> the
  grid origin is \<open>(0, 5, 0)\<close>, so the corner is \<open>(0, 5/20, 0)\<close>.
\<close>

theorem volumeFromCcp4_grid_origin_witness:
  "box_min (fractionalBox
      (volumeFromCcp4 \<lparr>header = swapped_header (Fin 0) (Fin 0) (Fin 0), file_values = []\<rparr> None))
     = (Fin (2 / 10), Fin (1 / 20), Fin (3 / 30))
   \<and> box_min (fractionalBox
      (volumeFromCcp4 \<lparr>header = swapped_header (Fin 0) (Fin 5) (Fin 0), file_values = []\<rparr> None))
     = (Fin 0, Fin (5 / 20), Fin 0)"
proof -
  have a: "box_min (fractionalBox
      (volumeFromCcp4 \<lparr>header = swapped_header (Fin 0) (Fin 0) (Fin 0), file_values = []\<rparr> None))
     = (Fin (2 / 10), Fin (1 / 20), Fin (3 / 30))"
    using volumeFromCcp4_grid_origin
      [of "\<lparr>header = swapped_header (Fin 0) (Fin 0) (Fin 0), file_values = []\<rparr>" None]
    by (simp add: swapped_header_def convertToCanonicalAxisIndicesFastToSlow_def
        canonical_indices_swapped upt_rec num_of_int_def)
  have b: "box_min (fractionalBox
      (volumeFromCcp4 \<lparr>header = swapped_header (Fin 0) (Fin 5) (Fin 0), file_values = []\<rparr> None))
     = (Fin 0, Fin (5 / 20), Fin 0)"
    using volumeFromCcp4_grid_origin
      [of "\<lparr>header = swapped_header (Fin 0) (Fin 5) (Fin 0), file_values = []\<rparr>" None]
    by (simp add: swapped_header_def num_of_int_def)
  from a b show ?thesis by simp
qed

section \<open>Properties of the assembly-symmetry transform and action\<close>

text \<open>
  C1. When \<open>attach\<close> resolves and the value of the property is then missing or has
  length 0, \<open>AssemblySymmetry3D.apply\<close> returns \<open>StateObject.Null\<close>: it does not throw
  and it returns no representation object.
\<close>

theorem apply_zero_clusters_Null:
  assumes "attach ext a p = (None, p')"
    and "get_value ext a p' = None \<or> (\<exists>v. get_value ext a p' = Some v \<and> length v = 0)"
  shows "AssemblySymmetry3D_apply ext a prms p = (Inr Null, p')
       \<and> (\<forall>e. fst (AssemblySymmetry3D_apply ext a prms p) \<noteq> Inl e)
       \<and> (\<forall>r. fst (AssemblySymmetry3D_apply ext a prms p) \<noteq> Inr (Shape_Representation3D r))"
proof -
  have "AssemblySymmetry3D_apply ext a prms p = (Inr Null, p')"
    using assms by (auto simp: AssemblySymmetry3D_apply_def)
  then show ?thesis by simp
qed

text \<open>A value that is missing, and a value that is the empty array.\<close>

theorem apply_zero_clusters_Null_witness:
  "AssemblySymmetry3D_apply (example_ext None None) 0 (example_params 0) None = (Inr Null, None)
   \<and> AssemblySymmetry3D_apply (example_ext None (Some [])) 0 (example_params 0) None
       = (Inr Null, Some [])"
proof -
  have a: "attach (example_ext None None) 0 None = (None, None)"
    and b: "attach (example_ext None (Some [])) 0 None = (None, Some [])"
    by (simp_all add: example_ext_def)
  have a': "get_value (example_ext None None) 0 None = None
      \<or> (\<exists>v. get_value (example_ext None None) 0 None = Some v \<and> length v = 0)"
    by (simp add: example_ext_def)
  have b': "get_value (example_ext None (Some [])) 0 (Some []) = None
      \<or> (\<exists>v. get_value (example_ext None (Some [])) 0 (Some []) = Some v \<and> length v = 0)"
    by (simp add: example_ext_def)
  from apply_zero_clusters_Null [OF a a', of "example_params 0"]
    apply_zero_clusters_Null [OF b b', of "example_params 0"]
  show ?thesis by simp
qed

text \<open>
  C2 as stated fails: with one cluster attached and \<open>symmetryIndex = 3\<close>, \<open>update\<close>
  returns neither \<open>Recreate\<close> nor \<open>Updated\<close>; the task rejects with a \<open>TypeError\<close>.
\<close>

theorem update_index_counterexample:
  "get_value (example_ext None (Some [example_entry])) 0
     (snd (attach (example_ext None (Some [example_entry])) 0 None)) = Some [example_entry]
   \<and> fst (AssemblySymmetry3D_update (example_ext None (Some [example_entry])) 0 example_b
            (example_params 3) None) = Inl TypeError"
  by (simp add: AssemblySymmetry3D_update_def example_ext_def example_params_def array_get_def)

text \<open>
  C2, as the code has it. \<open>AssemblySymmetry3D.update\<close> returns \<open>Recreate\<close> exactly when
  \<open>attach\<close> resolves and the value of the property is then missing or has length 0, and
  it then leaves \<open>b\<close> as it was. When \<open>attach\<close> resolves, the value has at least one
  entry, \<open>createOrUpdate\<close> of \<open>b\<close>'s representation with the merged props resolves and
  \<open>newParams.symmetryIndex\<close> is the index of an entry, it returns \<open>Updated\<close> and \<open>b\<close> is the
  same object with the updated representation, the entry's kind as label and
  \<open>type (symbol)\<close> as description.
\<close>

theorem update_Recreate_or_Updated:
  "(fst (AssemblySymmetry3D_update ext a b newParams p) = Inr Recreate
      \<longleftrightarrow> fst (attach ext a p) = None
          \<and> (get_value ext a (snd (attach ext a p)) = None
             \<or> get_value ext a (snd (attach ext a p)) = Some []))
   \<and> (fst (AssemblySymmetry3D_update ext a b newParams p) = Inr Recreate
      \<longrightarrow> fst (snd (AssemblySymmetry3D_update ext a b newParams p)) = b)
   \<and> (\<forall>v r s. fst (attach ext a p) = None
        \<and> get_value ext a (snd (attach ext a p)) = Some v \<and> v \<noteq> []
        \<and> createOrUpdate ext (spread (repr_props ext (repr b)) newParams) a (repr b) = Inr r
        \<and> array_get v (symmetryIndex newParams) = Some s
      \<longrightarrow> AssemblySymmetry3D_update ext a b newParams p
            = (Inr Updated,
               b\<lparr>repr := r, label := kind s, description := sym_type s @ '' ('' @ symbol s @ '')''\<rparr>,
               snd (attach ext a p)))"
proof -
  obtain e p' where at: "attach ext a p = (e, p')" by (cases "attach ext a p")
  have one: "fst (AssemblySymmetry3D_update ext a b newParams p) = Inr Recreate
      \<longleftrightarrow> fst (attach ext a p) = None
          \<and> (get_value ext a (snd (attach ext a p)) = None
             \<or> get_value ext a (snd (attach ext a p)) = Some [])"
    by (auto simp: AssemblySymmetry3D_update_def at
        split: option.splits sum.splits if_splits)
  have two: "fst (AssemblySymmetry3D_update ext a b newParams p) = Inr Recreate
      \<longrightarrow> fst (snd (AssemblySymmetry3D_update ext a b newParams p)) = b"
    by (auto simp: AssemblySymmetry3D_update_def at
        split: option.splits sum.splits if_splits)
  have three: "\<forall>v r s. fst (attach ext a p) = None
        \<and> get_value ext a (snd (attach ext a p)) = Some v \<and> v \<noteq> []
        \<and> createOrUpdate ext (spread (repr_props ext (repr b)) newParams) a (repr b) = Inr r
        \<and> array_get v (symmetryIndex newParams) = Some s
      \<longrightarrow> AssemblySymmetry3D_update ext a b newParams p
            = (Inr Updated,
               b\<lparr>repr := r, label := kind s, description := sym_type s @ '' ('' @ symbol s @ '')''\<rparr>,
               snd (attach ext a p))"
    by (auto simp: AssemblySymmetry3D_update_def at symmetry_description_def)
  from one two three show ?thesis by blast
qed

text \<open>
  With one cluster attached and \<open>symmetryIndex = 0\<close> the update is \<open>Updated\<close> and \<open>b\<close> is
  relabelled; with an empty value it is \<open>Recreate\<close> and \<open>b\<close> is as before.
\<close>

theorem update_Recreate_or_Updated_witness:
  "AssemblySymmetry3D_update (example_ext None (Some [example_entry])) 0 example_b
       (example_params 0) None
     = (Inr Updated,
        example_b\<lparr>repr := example_params 0, label := ''Global Symmetry'',
                  description := ''Cyclic (C2)''\<rparr>,
        Some [example_entry])
   \<and> fst (AssemblySymmetry3D_update (example_ext None (Some [])) 0 example_b
            (example_params 0) None) = Inr Recreate
   \<and> fst (snd (AssemblySymmetry3D_update (example_ext None (Some [])) 0 example_b
            (example_params 0) None)) = example_b"
proof -
  have u: "AssemblySymmetry3D_update (example_ext None (Some [example_entry])) 0 example_b
       (example_params 0) None
     = (Inr Updated,
        example_b\<lparr>repr := example_params 0, label := ''Global Symmetry'',
                  description := ''Cyclic (C2)''\<rparr>,
        Some [example_entry])"
    using update_Recreate_or_Updated
      [of "example_ext None (Some [example_entry])" 0 example_b "example_params 0" None]
    by (simp add: example_ext_def example_params_def example_b_def example_entry_def
        array_get_def spread_def)
  have r: "fst (AssemblySymmetry3D_update (example_ext None (Some [])) 0 example_b
            (example_params 0) None) = Inr Recreate"
    using update_Recreate_or_Updated
      [of "example_ext None (Some [])" 0 example_b "example_params 0" None]
    by (simp add: example_ext_def)
  from r update_Recreate_or_Updated
      [of "example_ext None (Some [])" 0 example_b "example_params 0" None]
  have "fst (snd (AssemblySymmetry3D_update (example_ext None (Some [])) 0 example_b
            (example_params 0) None)) = example_b"
    by blast
  with u r show ?thesis by simp
qed

text \<open>
  C4 as stated fails for the transform: when \<open>attach\<close> rejects inside
  \<open>AssemblySymmetry3D.apply\<close>, the task rejects with the same error; it does not return
  \<open>StateObject.Null\<close>.
\<close>

theorem apply_attach_failure_counterexample:
  "AssemblySymmetry3D_apply (example_ext (Some ''network error'') None) 0 (example_params 0) None
     = (Inl (Thrown ''network error''), None)
   \<and> fst (AssemblySymmetry3D_apply (example_ext (Some ''network error'') None) 0
            (example_params 0) None) \<noteq> Inr Null"
  by (simp add: AssemblySymmetry3D_apply_def example_ext_def)

text \<open>
  C4, as the code has it. When \<open>attach\<close> rejects with \<open>e\<close> inside the action
  \<open>InitAssemblySymmetry3D\<close>, the action appends the line \<open>Assembly Symmetry: e\<close> to the
  error log and returns normally without updating the state tree, so no node is added.
  When \<open>attach\<close> rejects with \<open>e\<close> inside \<open>AssemblySymmetry3D.apply\<close> or
  \<open>AssemblySymmetry3D.update\<close>, the task rejects with \<open>e\<close>; \<open>update\<close> leaves \<open>b\<close> as it was.
\<close>

theorem attach_failure_logged_by_action:
  assumes "attach ext a (custom w) = (Some e, p')"
  shows "InitAssemblySymmetry3D_run ext updateTree a ref w
           = (Inr (), w\<lparr>custom := p', log_errors := log_errors w @ [''Assembly Symmetry: '' @ e]\<rparr>)
       \<and> tree (snd (InitAssemblySymmetry3D_run ext updateTree a ref w)) = tree w
       \<and> AssemblySymmetry3D_apply ext a prms (custom w) = (Inl (Thrown e), p')
       \<and> AssemblySymmetry3D_update ext a b prms (custom w) = (Inl (Thrown e), b, p')"
  using assms
  by (simp add: InitAssemblySymmetry3D_run_def AssemblySymmetry3D_apply_def
      AssemblySymmetry3D_update_def)

text \<open>
  An \<open>attach\<close> that rejects with \<open>network error\<close>, on a plugin with an empty tree and an
  empty log.
\<close>

theorem attach_failure_logged_by_action_witness:
  "InitAssemblySymmetry3D_run (example_ext (Some ''network error'') None) example_updateTree
       0 5 example_plugin
     = (Inr (), \<lparr>custom = None, log_errors = [''Assembly Symmetry: network error''], tree = []\<rparr>)
   \<and> AssemblySymmetry3D_apply (example_ext (Some ''network error'') None) 0 (example_params 0)
       (custom example_plugin)
     = (Inl (Thrown ''network error''), None)"
proof -
  have at: "attach (example_ext (Some ''network error'') None) 0 (custom example_plugin)
              = (Some ''network error'', None)"
    by (simp add: example_ext_def example_plugin_def)
  from attach_failure_logged_by_action
    [OF at, of example_updateTree 5 "example_params 0" example_b]
  show ?thesis by (simp add: example_plugin_def)
qed

section \<open>Properties of the behavior \<open>RCSBAssemblySymmetry\<close>\<close>

text \<open>
  C3 as stated fails twice. The calls of \<open>unregister()\<close> are not those of \<open>register()\<close>
  taken back in reverse order: they are made in the same order. And from a registry
  state that already holds the action \<open>InitAssemblySymmetry3D\<close>, \<open>register()\<close> followed by
  \<open>unregister()\<close> leaves a state without it.
\<close>

theorem register_unregister_counterexample:
  "unregister_calls (example_handler {})
     \<noteq> rev (map undo_call (register_calls (example_handler {})))
   \<and> ctx (unregister (register (example_handler {InitAssemblySymmetry3D})))
     \<noteq> ctx (example_handler {InitAssemblySymmetry3D})"
proof -
  have "actions (ctx (unregister (register (example_handler {InitAssemblySymmetry3D})))) = {}"
    by (simp add: unregister_def register_def unregister_calls_def register_calls_def
        example_handler_def)
  moreover have "actions (ctx (example_handler {InitAssemblySymmetry3D})) \<noteq> {}"
    by (simp add: example_handler_def)
  ultimately have "ctx (unregister (register (example_handler {InitAssemblySymmetry3D})))
     \<noteq> ctx (example_handler {InitAssemblySymmetry3D})"
    by metis
  then show ?thesis
    by (simp add: unregister_calls_def register_calls_def)
qed

text \<open>
  C3, as the code has it. \<open>unregister()\<close> takes back each of the three things
  \<open>register()\<close> installs, in the order \<open>register()\<close> installed them (action, custom
  structure property, color theme). From every registry state that holds none of the
  three (not the action, nothing under the provider's descriptor name, not the color
  theme), \<open>register()\<close> followed by \<open>unregister()\<close> gives back that state.
\<close>

theorem register_unregister_restores:
  assumes "InitAssemblySymmetry3D \<notin> actions (ctx h)"
    and "providers (ctx h) (descriptor_name (provider h)) = None"
    and "defaultAutoAttachValues (ctx h) (descriptor_name (provider h)) = None"
    and "AssemblySymmetryClusterColorThemeProvider \<notin> colorThemeRegistry (ctx h)"
  shows "unregister (register h) = h
       \<and> unregister_calls h = map undo_call (register_calls h)"
proof -
  have "(providers (ctx h))(descriptor_name (provider h) := None) = providers (ctx h)"
    using assms(2) by (simp add: fun_upd_idem)
  moreover have "(defaultAutoAttachValues (ctx h))(descriptor_name (provider h) := None)
      = defaultAutoAttachValues (ctx h)"
    using assms(3) by (simp add: fun_upd_idem)
  ultimately show ?thesis
    using assms(1,4)
    by (simp add: unregister_def register_def unregister_calls_def register_calls_def)
qed

text \<open>A handler on empty registries.\<close>

theorem register_unregister_restores_witness:
  "InitAssemblySymmetry3D \<in> actions (ctx (register (example_handler {})))
   \<and> unregister (register (example_handler {})) = example_handler {}"
proof -
  have pre: "InitAssemblySymmetry3D \<notin> actions (ctx (example_handler {}))"
    "providers (ctx (example_handler {})) (descriptor_name (provider (example_handler {}))) = None"
    "defaultAutoAttachValues (ctx (example_handler {}))
       (descriptor_name (provider (example_handler {}))) = None"
    "AssemblySymmetryClusterColorThemeProvider \<notin> colorThemeRegistry (ctx (example_handler {}))"
    by (simp_all add: example_handler_def)
  have "InitAssemblySymmetry3D \<in> actions (ctx (register (example_handler {})))"
    by (simp add: register_def register_calls_def)
  with register_unregister_restores [OF pre] show ?thesis by simp
qed

text \<open>
  C7 as stated fails: new parameters that differ from the current ones in \<open>serverUrl\<close>
  only make \<open>update\<close> return \<open>false\<close>.
\<close>

theorem update_serverUrl_counterexample:
  "\<lparr>autoAttach = False, serverUrl = ''https://b.example''\<rparr> \<noteq> params (example_handler {})
   \<and> fst (update \<lparr>autoAttach = False, serverUrl = ''https://b.example''\<rparr> (example_handler {}))
       = False"
  by (simp add: update_def example_handler_def)

text \<open>
  C7, as the code has it. \<open>update(p)\<close> returns \<open>true\<close> exactly when \<open>p.autoAttach\<close>
  differs from the current \<open>autoAttach\<close>. Afterwards the handler's \<open>autoAttach\<close> is
  \<open>p.autoAttach\<close> and its \<open>serverUrl\<close> is the one it had; the provider's default
  auto-attach flag in the registry is \<open>p.autoAttach\<close>, and the actions, the registered
  providers and the color themes are as before.
\<close>

theorem update_reports_autoAttach_change:
  "fst (update p h) = (autoAttach p \<noteq> autoAttach (params h))
   \<and> params (snd (update p h)) = \<lparr>autoAttach = autoAttach p, serverUrl = serverUrl (params h)\<rparr>
   \<and> defaultAutoAttachValues (ctx (snd (update p h))) (descriptor_name (provider h))
       = Some (autoAttach p)
   \<and> actions (ctx (snd (update p h))) = actions (ctx h)
   \<and> providers (ctx (snd (update p h))) = providers (ctx h)
   \<and> colorThemeRegistry (ctx (snd (update p h))) = colorThemeRegistry (ctx h)"
  by (auto simp: update_def Let_def)

text \<open>Switching auto-attach on, with another server URL.\<close>

theorem update_reports_autoAttach_change_witness:
  "fst (update \<lparr>autoAttach = True, serverUrl = ''https://b.example''\<rparr> (example_handler {})) = True
   \<and> params (snd (update \<lparr>autoAttach = True, serverUrl = ''https://b.example''\<rparr>
                    (example_handler {})))
       = \<lparr>autoAttach = True, serverUrl = ''https://a.example''\<rparr>
   \<and> defaultAutoAttachValues
       (ctx (snd (update \<lparr>autoAttach = True, serverUrl = ''https://b.example''\<rparr>
                    (example_handler {})))) ''rcsb_struct_symmetry'' = Some True"
  using update_reports_autoAttach_change
    [of "\<lparr>autoAttach = True, serverUrl = ''https://b.example''\<rparr>" "example_handler {}"]
  by (simp add: example_handler_def)

end
